theory Spec2Isabelle
  imports Complex_Main "HOL-Library.Word"
begin

section \<open>Rule evaluation over JSON events (plugins/cel.go)\<close>

text \<open>
  The Go package \<^verbatim>\<open>plugins\<close> evaluates a CEL expression against a JSON document.
  \<^verbatim>\<open>Evaluate\<close> is glue around three libraries that are not part of the package: the JSON
  decoder (\<^verbatim>\<open>encoding/json\<close>), the path accessor (\<^verbatim>\<open>gjson\<close>) and the expression
  engine (\<^verbatim>\<open>cel-go\<close>). The functions of the package are embedded below as they are written;
  every library entry point they call is a field of the record \<open>collaborators\<close>. What
  the package does on its own holds for whatever the libraries compute; what it does
  through them is stated over a model of the libraries, given in a section of its own.
\<close>

subsection \<open>Go dynamic types and values\<close>

text \<open>
  The dynamic type of an \<^verbatim>\<open>interface{}\<close> value. A defined (named) type is identified by
  its import path and its name; \<open>pkgName\<close> is the name of the package, which is what
  \<^verbatim>\<open>reflect.Type.String\<close> prints in front of the type name.
\<close>

datatype go_type =
    TBool
  | TString
  | TInt | TInt8 | TInt16 | TInt32 | TInt64
  | TUint | TUint8 | TUint16 | TUint32 | TUint64 | TUintptr
  | TFloat32 | TFloat64
  | TInterface
  | TSlice go_type
  | TMap go_type go_type
  | TPtr go_type
  | TNamed (pkgPath: string) (pkgName: string) (typeName: string)

text \<open>\<^verbatim>\<open>byte\<close> is an alias of \<^verbatim>\<open>uint8\<close>, so \<^verbatim>\<open>[]byte\<close> is \<open>TSlice TUint8\<close>.\<close>

definition time_Time :: go_type where
  "time_Time = TNamed ''time'' ''time'' ''Time''"

definition structpb_Value :: go_type where
  "structpb_Value =
     TNamed ''google.golang.org/protobuf/types/known/structpb'' ''structpb'' ''Value''"

text \<open>
  \<^verbatim>\<open>reflect.Type.String()\<close>: the printed form of a type. A defined type prints as
  package name, dot, type name; the import path is not part of it.
\<close>

fun Type_String :: "go_type \<Rightarrow> string" where
  "Type_String TBool = ''bool''"
| "Type_String TString = ''string''"
| "Type_String TInt = ''int''"
| "Type_String TInt8 = ''int8''"
| "Type_String TInt16 = ''int16''"
| "Type_String TInt32 = ''int32''"
| "Type_String TInt64 = ''int64''"
| "Type_String TUint = ''uint''"
| "Type_String TUint8 = ''uint8''"
| "Type_String TUint16 = ''uint16''"
| "Type_String TUint32 = ''uint32''"
| "Type_String TUint64 = ''uint64''"
| "Type_String TUintptr = ''uintptr''"
| "Type_String TFloat32 = ''float32''"
| "Type_String TFloat64 = ''float64''"
| "Type_String TInterface = ''interface {}''"
| "Type_String (TSlice t) = ''[]'' @ Type_String t"
| "Type_String (TMap k v) = ''map['' @ Type_String k @ '']'' @ Type_String v"
| "Type_String (TPtr t) = ''*'' @ Type_String t"
| "Type_String (TNamed p n t) = n @ ''.'' @ t"

text \<open>
  A 64-bit float is only ever passed through by this package (decoded by a library, handed
  to another library), never computed with; its values are represented by reals.
\<close>

type_synonym float64 = real

text \<open>
  An \<^verbatim>\<open>interface{}\<close> value. The first six constructors are the values the JSON decoder
  stores into a \<^verbatim>\<open>map[string]interface{}\<close>; \<open>VOther t\<close> is a value of any other
  dynamic type \<open>t\<close>, whose payload this package never inspects.
\<close>

datatype go_value =
    VNil
  | VBool bool
  | VFloat64 float64
  | VString string
  | VSlice "go_value list"
  | VMap "(string \<times> go_value) list"
  | VOther go_type

text \<open>\<^verbatim>\<open>reflect.TypeOf\<close>: the dynamic type, absent for the nil interface value.\<close>

fun TypeOf :: "go_value \<Rightarrow> go_type option" where
  "TypeOf VNil = None"
| "TypeOf (VBool b) = Some TBool"
| "TypeOf (VFloat64 f) = Some TFloat64"
| "TypeOf (VString s) = Some TString"
| "TypeOf (VSlice xs) = Some (TSlice TInterface)"
| "TypeOf (VMap kvs) = Some (TMap TString TInterface)"
| "TypeOf (VOther t) = Some t"

subsection \<open>CEL types and the classifier \<^verbatim>\<open>valueToCelType\<close>\<close>

text \<open>
  The types \<^verbatim>\<open>valueToCelType\<close> returns, followed by the two types the model of the
  compiler needs besides: the type of an erroneous expression and the duration.
\<close>

datatype cel_type =
    BoolType
  | StringType
  | IntType
  | UintType
  | DoubleType
  | BytesType
  | TimestampType
  | MapType cel_type cel_type
  | ListType cel_type
  | NullType
  | DynType
  | ObjectType string
  | ErrorType
  | DurationType

text \<open>
  The type switch of \<^verbatim>\<open>valueToCelType\<close>, case by case in the order of the source. The
  case \<^verbatim>\<open>proto.Message\<close> is an interface case: \<open>isProtoMessage t\<close> says whether the
  method set of \<open>t\<close> implements that interface.
\<close>

definition valueToCelType :: "(go_type \<Rightarrow> bool) \<Rightarrow> go_value \<Rightarrow> cel_type" where
  "valueToCelType isProtoMessage v =
     (let ty = TypeOf v in
      if ty = Some TBool then BoolType
      else if ty = Some TString then StringType
      else if ty = Some TInt \<or> ty = Some TInt32 \<or> ty = Some TInt64 then IntType
      else if ty = Some TUint \<or> ty = Some TUint32 \<or> ty = Some TUint64 then UintType
      else if ty = Some TFloat32 \<or> ty = Some TFloat64 then DoubleType
      else if ty = Some (TSlice TUint8) then BytesType
      else if ty = Some time_Time then TimestampType
      else if ty = Some (TMap TString TInterface) then MapType StringType DynType
      else if ty = Some (TMap TString (TPtr structpb_Value)) then MapType StringType DynType
      else if ty = Some (TSlice TInterface) then ListType DynType
      else case ty of
             None \<Rightarrow> NullType
           | Some t \<Rightarrow> if isProtoMessage t then DynType else ObjectType (Type_String t))"

text \<open>
  The types the switch names explicitly; every other type reaches the interface case or
  the default case.
\<close>

definition listed_types :: "go_type list" where
  "listed_types =
     [TBool, TString, TInt, TInt32, TInt64, TUint, TUint32, TUint64, TFloat32, TFloat64,
      TSlice TUint8, time_Time, TMap TString TInterface, TMap TString (TPtr structpb_Value),
      TSlice TInterface]"

subsection \<open>CEL runtime values\<close>

datatype ref_val =
    types_Bool bool
  | types_String string
  | types_Double float64
  | types_Int "64 word"
  | types_Uint "64 word"
  | types_Bytes "8 word list"
  | types_Null
  | types_List "ref_val list"
  | types_Map "(ref_val \<times> ref_val) list"
  | types_Object string
  | types_Err string

fun val_Type :: "ref_val \<Rightarrow> cel_type" where
  "val_Type (types_Bool b) = BoolType"
| "val_Type (types_String s) = StringType"
| "val_Type (types_Double d) = DoubleType"
| "val_Type (types_Int i) = IntType"
| "val_Type (types_Uint u) = UintType"
| "val_Type (types_Bytes bs) = BytesType"
| "val_Type types_Null = NullType"
| "val_Type (types_List xs) = ListType DynType"
| "val_Type (types_Map kvs) = MapType DynType DynType"
| "val_Type (types_Object n) = ObjectType n"
| "val_Type (types_Err e) = ErrorType"

subsection \<open>The path accessor's result (\<^verbatim>\<open>gjson.Result\<close>)\<close>

datatype gjson_Type =
  gjson_Null | gjson_False | gjson_Number | gjson_String | gjson_True | gjson_JSON

record gjson_Result =
  res_Type :: gjson_Type
  res_Raw :: string
  res_Str :: string
  res_Num :: float64

text \<open>\<^verbatim>\<open>Result.Exists\<close>: the result is not the zero result of a failed lookup.\<close>

definition Result_Exists :: "gjson_Result \<Rightarrow> bool" where
  "Result_Exists r = (res_Type r \<noteq> gjson_Null \<or> res_Raw r \<noteq> [])"

definition Result_IsBool :: "gjson_Result \<Rightarrow> bool" where
  "Result_IsBool r = (res_Type r = gjson_True \<or> res_Type r = gjson_False)"

subsection \<open>The accessor functions \<^verbatim>\<open>exists\<close> and \<^verbatim>\<open>safe\<close>\<close>

text \<open>
  A binding receives CEL values. The type assertion \<^verbatim>\<open>key.Value().(string)\<close> panics on
  a key that is not a string; the panic is a result of the model.
\<close>

datatype panic = TypeAssertionPanic

datatype binding =
    UnaryBinding "ref_val \<Rightarrow> panic + ref_val"
  | BinaryBinding "ref_val \<Rightarrow> ref_val \<Rightarrow> panic + ref_val"

datatype overload =
  Overload (overloadID: string) (argTypes: "cel_type list") (resultType: cel_type)
           (impl: binding)

datatype env_option =
    Function string overload
  | Variable string cel_type
  | OtherOption string

text \<open>
  In each binding \<open>get\<close> is \<^verbatim>\<open>gjson.Get\<close> and \<open>s\<close> is the raw document the option
  was built over. After the guards, \<^verbatim>\<open>v.String()\<close> of a result of type String is its
  field \<^verbatim>\<open>Str\<close>, \<^verbatim>\<open>v.Float()\<close> of a Number is its field \<^verbatim>\<open>Num\<close>, and
  \<^verbatim>\<open>v.Bool()\<close> of a True or False result says whether it is True.
\<close>

definition exists_binding ::
  "(string \<Rightarrow> string \<Rightarrow> gjson_Result) \<Rightarrow> string \<Rightarrow> ref_val \<Rightarrow> panic + ref_val" where
  "exists_binding get s key =
     (case key of
        types_String k \<Rightarrow> (let v = get s k in Inr (types_Bool (Result_Exists v)))
      | _ \<Rightarrow> Inl TypeAssertionPanic)"

definition celExists :: "(string \<Rightarrow> string \<Rightarrow> gjson_Result) \<Rightarrow> string \<Rightarrow> env_option" where
  "celExists get s =
     Function ''exists''
       (Overload ''string_exists_bool'' [StringType] BoolType
          (UnaryBinding (exists_binding get s)))"

definition safeString_binding ::
  "(string \<Rightarrow> string \<Rightarrow> gjson_Result) \<Rightarrow> string \<Rightarrow> ref_val \<Rightarrow> ref_val \<Rightarrow> panic + ref_val" where
  "safeString_binding get s key def =
     (case key of
        types_String k \<Rightarrow>
          (let v = get s k in
           if Result_Exists v \<and> res_Type v = gjson_String then Inr (types_String (res_Str v))
           else Inr def)
      | _ \<Rightarrow> Inl TypeAssertionPanic)"

definition safeString :: "(string \<Rightarrow> string \<Rightarrow> gjson_Result) \<Rightarrow> string \<Rightarrow> env_option" where
  "safeString get s =
     Function ''safe''
       (Overload ''string_string_safe_string'' [StringType, StringType] StringType
          (BinaryBinding (safeString_binding get s)))"

definition safeNum_binding ::
  "(string \<Rightarrow> string \<Rightarrow> gjson_Result) \<Rightarrow> string \<Rightarrow> ref_val \<Rightarrow> ref_val \<Rightarrow> panic + ref_val" where
  "safeNum_binding get s key def =
     (case key of
        types_String k \<Rightarrow>
          (let v = get s k in
           if Result_Exists v \<and> res_Type v = gjson_Number then Inr (types_Double (res_Num v))
           else Inr def)
      | _ \<Rightarrow> Inl TypeAssertionPanic)"

definition safeNum :: "(string \<Rightarrow> string \<Rightarrow> gjson_Result) \<Rightarrow> string \<Rightarrow> env_option" where
  "safeNum get s =
     Function ''safe''
       (Overload ''string_num_safe_num'' [StringType, DoubleType] DoubleType
          (BinaryBinding (safeNum_binding get s)))"

definition safeBool_binding ::
  "(string \<Rightarrow> string \<Rightarrow> gjson_Result) \<Rightarrow> string \<Rightarrow> ref_val \<Rightarrow> ref_val \<Rightarrow> panic + ref_val" where
  "safeBool_binding get s key def =
     (case key of
        types_String k \<Rightarrow>
          (let v = get s k in
           if Result_Exists v \<and> Result_IsBool v
           then Inr (types_Bool (res_Type v = gjson_True))
           else Inr def)
      | _ \<Rightarrow> Inl TypeAssertionPanic)"

definition safeBool :: "(string \<Rightarrow> string \<Rightarrow> gjson_Result) \<Rightarrow> string \<Rightarrow> env_option" where
  "safeBool get s =
     Function ''safe''
       (Overload ''string_bool_safe_bool'' [StringType, BoolType] BoolType
          (BinaryBinding (safeBool_binding get s)))"

subsection \<open>Errors\<close>

text \<open>An error value returned by a library: its message.\<close>

type_synonym go_error = string

text \<open>
  One error reported by the expression compiler (\<^verbatim>\<open>common.Error\<close>), by what it
  reports rather than by its text.
\<close>

datatype cel_issue =
    SyntaxError
  | OverlappingIdentifiers "string list"
  | UndeclaredReference string
  | NoMatchingOverload string "cel_type list"
  | NoFieldSelection cel_type

text \<open>The values stored in the context map of an error.\<close>

datatype ctx_value =
    CtxString string
  | CtxIssues "cel_issue list"

text \<open>
  Modelled from the spec: the structured-error sink \<^verbatim>\<open>catcher.Error(msg, cause, args)\<close>,
  whose code is not among the sources. The spec describes it as attaching structured context
  to an error; the error it returns is the triple of its arguments and is never nil.
\<close>

datatype sdk_error =
  catcher_Error (msg: string) (cause: "go_error option") (args: "(string \<times> ctx_value) list")

subsection \<open>The libraries \<^verbatim>\<open>Evaluate\<close> calls\<close>

text \<open>
  \<^verbatim>\<open>*cel.Issues\<close>: the errors the compiler collected. \<^verbatim>\<open>Issues.Err()\<close> is non-nil
  exactly when there is at least one error; \<^verbatim>\<open>Evaluate\<close> only tests it against nil.
\<close>

datatype Issues = Issues (Errors: "cel_issue list")

definition Issues_Err :: "Issues \<Rightarrow> go_error option" where
  "Issues_Err i = (if Errors i = [] then None else Some ''compilation failed'')"

text \<open>
  Each field is one library entry point, with Go's pair of a value and an error as a sum.
  \<open>json_Unmarshal\<close> decodes into a \<^verbatim>\<open>map[string]interface{}\<close>; the list it returns
  holds the entries of that map in the order in which the \<^verbatim>\<open>range\<close> loop of
  \<^verbatim>\<open>Evaluate\<close> visits them. The environment, the checked expression and the program are
  opaque to the package, hence type variables.
\<close>

record ('env, 'ast, 'prg) collaborators =
  json_Unmarshal :: "string \<Rightarrow> go_error + (string \<times> go_value) list"
  gjson_Get :: "string \<Rightarrow> string \<Rightarrow> gjson_Result"
  proto_Message :: "go_type \<Rightarrow> bool"
  cel_NewEnv :: "env_option list \<Rightarrow> go_error + 'env"
  Env_Compile :: "'env \<Rightarrow> string \<Rightarrow> 'ast \<times> Issues option"
  Env_Program :: "'env \<Rightarrow> 'ast \<Rightarrow> go_error + 'prg"
  Program_Eval :: "'prg \<Rightarrow> (string \<times> go_value) list \<Rightarrow> go_error + ref_val"

text \<open>
  The library calls \<^verbatim>\<open>Evaluate\<close> makes, with their arguments, in the order it makes
  them. The log is the only effect of \<^verbatim>\<open>Evaluate\<close> the model keeps.
\<close>

datatype ('env, 'ast, 'prg) call =
    Call_Unmarshal string
  | Call_NewEnv "env_option list"
  | Call_Compile 'env string
  | Call_Program 'env 'ast
  | Call_Eval 'prg "(string \<times> go_value) list"

subsection \<open>\<^verbatim>\<open>Evaluate\<close>\<close>

text \<open>
  The option list handed to \<^verbatim>\<open>cel.NewEnv\<close>: the four accessor functions over the raw
  document, then the caller's options, then one variable per entry of the decoded map.
\<close>

definition envOptions ::
  "('env, 'ast, 'prg) collaborators \<Rightarrow> string \<Rightarrow> env_option list \<Rightarrow>
   (string \<times> go_value) list \<Rightarrow> env_option list" where
  "envOptions L d envOption valuesMap =
     [celExists (gjson_Get L) d, safeBool (gjson_Get L) d,
      safeString (gjson_Get L) d, safeNum (gjson_Get L) d]
     @ envOption
     @ map (\<lambda>(k, v). Variable k (valueToCelType (proto_Message L) v)) valuesMap"

text \<open>
  \<^verbatim>\<open>Evaluate(data, expression, envOption...)\<close>. The data pointer is an option. The result
  is the pair Go returns, together with the log of library calls. The type assertion
  \<^verbatim>\<open>out.Value().(bool)\<close> is the \<open>case\<close> on \<open>out\<close>; its second branch is never
  taken, since \<open>types_Bool\<close> is the only value of type \<open>BoolType\<close>.
\<close>

definition Evaluate ::
  "('env, 'ast, 'prg) collaborators \<Rightarrow> string option \<Rightarrow> string \<Rightarrow> env_option list \<Rightarrow>
   (bool \<times> sdk_error option) \<times> ('env, 'ast, 'prg) call list" where
  "Evaluate L data expression envOption =
     (case data of
        None \<Rightarrow> ((False, Some (catcher_Error ''data is nil'' None [])), [])
      | Some d \<Rightarrow>
         (case json_Unmarshal L d of
            Inl err \<Rightarrow>
              ((False, Some (catcher_Error ''cannot unmarshal data'' (Some err) [])),
               [Call_Unmarshal d])
          | Inr valuesMap \<Rightarrow>
             (let opts = envOptions L d envOption valuesMap in
              case cel_NewEnv L opts of
                Inl err \<Rightarrow>
                  ((False, Some (catcher_Error ''failed to start CEL environment'' (Some err) [])),
                   [Call_Unmarshal d, Call_NewEnv opts])
              | Inr celEnv \<Rightarrow>
                 (case Env_Compile L celEnv expression of
                    (ast, issues) \<Rightarrow>
                      if issues \<noteq> None \<and> Issues_Err (the issues) \<noteq> None then
                        ((False, Some (catcher_Error ''failed to compile expression'' None
                            [(''expression'', CtxString expression),
                             (''issues'', CtxIssues (Errors (the issues)))])),
                         [Call_Unmarshal d, Call_NewEnv opts, Call_Compile celEnv expression])
                      else
                       (case Env_Program L celEnv ast of
                          Inl err \<Rightarrow>
                            ((False, Some (catcher_Error ''failed to create program'' (Some err)
                                [(''expression'', CtxString expression)])),
                             [Call_Unmarshal d, Call_NewEnv opts,
                              Call_Compile celEnv expression, Call_Program celEnv ast])
                        | Inr prg \<Rightarrow>
                           (case Program_Eval L prg valuesMap of
                              Inl err \<Rightarrow>
                                ((False, Some (catcher_Error ''failed to evaluate program''
                                    (Some err) [(''expression'', CtxString expression)])),
                                 [Call_Unmarshal d, Call_NewEnv opts,
                                  Call_Compile celEnv expression, Call_Program celEnv ast,
                                  Call_Eval prg valuesMap])
                            | Inr out \<Rightarrow>
                               (if val_Type out = BoolType then
                                  (case out of
                                     types_Bool b \<Rightarrow>
                                       ((b, None),
                                        [Call_Unmarshal d, Call_NewEnv opts,
                                         Call_Compile celEnv expression,
                                         Call_Program celEnv ast, Call_Eval prg valuesMap])
                                   | _ \<Rightarrow>
                                       ((False, None),
                                        [Call_Unmarshal d, Call_NewEnv opts,
                                         Call_Compile celEnv expression,
                                         Call_Program celEnv ast, Call_Eval prg valuesMap]))
                                else
                                  ((False, Some (catcher_Error ''output type is not boolean'' None
                                      [(''expression'', CtxString expression)])),
                                   [Call_Unmarshal d, Call_NewEnv opts,
                                    Call_Compile celEnv expression,
                                    Call_Program celEnv ast, Call_Eval prg valuesMap]))))))))"

subsection \<open>Variable declarations of an environment\<close>

text \<open>The variable declarations among a list of options, in the order of the list.\<close>

fun variable_decls :: "env_option list \<Rightarrow> (string \<times> cel_type) list" where
  "variable_decls [] = []"
| "variable_decls (Variable k t # os) = (k, t) # variable_decls os"
| "variable_decls (Function n ov # os) = variable_decls os"
| "variable_decls (OtherOption x # os) = variable_decls os"

text \<open>The overloads declared for a function name, in the order of the list.\<close>

fun overloads_of :: "env_option list \<Rightarrow> string \<Rightarrow> overload list" where
  "overloads_of [] f = []"
| "overloads_of (Function n ov # os) f = (if n = f then ov # overloads_of os f else overloads_of os f)"
| "overloads_of (Variable k t # os) f = overloads_of os f"
| "overloads_of (OtherOption x # os) f = overloads_of os f"

text \<open>The caller passes declarations only: every option is a variable declaration.\<close>

fun is_Variable :: "env_option \<Rightarrow> bool" where
  "is_Variable (Variable k t) = True"
| "is_Variable (Function n ov) = False"
| "is_Variable (OtherOption x) = False"

section \<open>A model of the three libraries\<close>

text \<open>
  What the package computes depends on what the libraries do with its arguments: which
  texts the decoder accepts, how a path is walked, what the compiler makes of two
  declarations of one name, which expressions it rejects. This section models the part of
  each library that the properties below rest on, from the libraries' documented behaviour:
  \<^item> \<^verbatim>\<open>json.Unmarshal\<close> into a \<^verbatim>\<open>map[string]interface{}\<close>;
  \<^item> \<^verbatim>\<open>gjson.Get\<close> on a path of plain keys and indices separated by dots;
  \<^item> \<^verbatim>\<open>cel.NewEnv\<close>, \<^verbatim>\<open>Compile\<close>, \<^verbatim>\<open>Program\<close> and \<^verbatim>\<open>Eval\<close> on expressions built from
    literals, identifiers, field selection, calls of declared functions and the operators
    \<^verbatim>\<open>+ == != ! && ||\<close>.
  The two grammars (JSON texts, expression texts) and the rest of the path syntax of
  \<^verbatim>\<open>gjson\<close> (wildcards, queries, modifiers, escapes) are not modelled: they are the three
  fields of the record \<open>readers\<close>, and the model is a function of them. Identifiers of
  the CEL standard library and numbers outside the range of a 64-bit float are outside the
  model as well.
\<close>

subsection \<open>JSON documents\<close>

text \<open>
  A JSON value as the reader of a text yields it. A number keeps its spelling next to its
  value; the members of an object are in the order of the text, duplicates included.
\<close>

datatype json =
    JNull
  | JBool bool
  | JNumber string float64
  | JString string
  | JArray "json list"
  | JObject "(string \<times> json) list"

fun is_JObject :: "json option \<Rightarrow> bool" where
  "is_JObject (Some (JObject kvs)) = True"
| "is_JObject _ = False"

text \<open>The text of a value, without white space.\<close>

fun json_text :: "json \<Rightarrow> string"
  and json_elements :: "json list \<Rightarrow> string"
  and json_members :: "(string \<times> json) list \<Rightarrow> string" where
  "json_text JNull = ''null''"
| "json_text (JBool b) = (if b then ''true'' else ''false'')"
| "json_text (JNumber spelling v) = spelling"
| "json_text (JString s) = [CHR 0x22] @ s @ [CHR 0x22]"
| "json_text (JArray xs) = ''['' @ json_elements xs @ '']''"
| "json_text (JObject kvs) = ''{'' @ json_members kvs @ ''}''"
| "json_elements [] = []"
| "json_elements (x # xs) = json_text x @ (if xs = [] then [] else '','' @ json_elements xs)"
| "json_members [] = []"
| "json_members (kv # kvs) =
     [CHR 0x22] @ fst kv @ [CHR 0x22] @ '':'' @ json_text (snd kv)
     @ (if kvs = [] then [] else '','' @ json_members kvs)"

subsection \<open>The decoder (\<^verbatim>\<open>encoding/json\<close>)\<close>

text \<open>
  The entries of the Go map a list of members is stored into: one entry per key, holding
  the value of the last member with that key.
\<close>

fun go_map :: "(string \<times> 'a) list \<Rightarrow> (string \<times> 'a) list" where
  "go_map [] = []"
| "go_map (kv # kvs) = (if fst kv \<in> fst ` set kvs then go_map kvs else kv # go_map kvs)"

text \<open>The Go value a JSON value decodes to when the target is \<^verbatim>\<open>interface{}\<close>.\<close>

fun to_go :: "json \<Rightarrow> go_value"
  and to_go_elements :: "json list \<Rightarrow> go_value list"
  and to_go_members :: "(string \<times> json) list \<Rightarrow> (string \<times> go_value) list" where
  "to_go JNull = VNil"
| "to_go (JBool b) = VBool b"
| "to_go (JNumber spelling v) = VFloat64 v"
| "to_go (JString s) = VString s"
| "to_go (JArray xs) = VSlice (to_go_elements xs)"
| "to_go (JObject kvs) = VMap (go_map (to_go_members kvs))"
| "to_go_elements [] = []"
| "to_go_elements (x # xs) = to_go x # to_go_elements xs"
| "to_go_members [] = []"
| "to_go_members (kv # kvs) = (fst kv, to_go (snd kv)) # to_go_members kvs"

text \<open>
  \<^verbatim>\<open>json.Unmarshal(text, &valuesMap)\<close> with \<^verbatim>\<open>valuesMap\<close> a nil
  \<^verbatim>\<open>map[string]interface{}\<close>: a text that is not JSON is a syntax error; an object fills
  the map; the literal \<^verbatim>\<open>null\<close> is accepted and leaves the map nil; any other value is a
  type error.
\<close>

definition Unmarshal_map ::
  "(string \<Rightarrow> json option) \<Rightarrow> string \<Rightarrow> go_error + (string \<times> go_value) list" where
  "Unmarshal_map rd text =
     (case rd text of
        None \<Rightarrow> Inl ''invalid character''
      | Some JNull \<Rightarrow> Inr []
      | Some (JObject kvs) \<Rightarrow> Inr (go_map (to_go_members kvs))
      | Some _ \<Rightarrow> Inl ''cannot unmarshal into Go value of type map[string]interface {}'')"

subsection \<open>The path accessor (\<^verbatim>\<open>gjson.Get\<close>)\<close>

text \<open>The components of a path: the pieces between the dots.\<close>

fun split_dots :: "string \<Rightarrow> string list" where
  "split_dots [] = [[]]"
| "split_dots (c # cs) =
     (if c = CHR ''.'' then [] # split_dots cs
      else (case split_dots cs of [] \<Rightarrow> [[c]] | seg # segs \<Rightarrow> (c # seg) # segs))"

text \<open>
  A plain path: every component is non-empty, begins with a letter, a digit or an
  underscore and goes on with letters, digits, underscores and square brackets. None of
  these characters has a special meaning to \<^verbatim>\<open>gjson\<close> in these places; in particular a
  square bracket inside a component is a character of a key.
\<close>

definition name_char :: "char \<Rightarrow> bool" where
  "name_char c =
     (c \<in> set ''abcdefghijklmnopqrstuvwxyzABCDEFGHIJKLMNOPQRSTUVWXYZ0123456789_'')"

definition plain_char :: "char \<Rightarrow> bool" where
  "plain_char c = (name_char c \<or> c = CHR ''['' \<or> c = CHR '']'')"

definition plain_component :: "string \<Rightarrow> bool" where
  "plain_component seg =
     (case seg of [] \<Rightarrow> False | c # cs \<Rightarrow> name_char c \<and> list_all plain_char cs)"

definition plain_path :: "string \<Rightarrow> bool" where
  "plain_path p = list_all plain_component (split_dots p)"

text \<open>
  The index a component denotes in an array: \<^verbatim>\<open>gjson\<close> reads a component made of decimal
  digits as an unsigned 64-bit number, wrapping around, and converts it to an \<^verbatim>\<open>int\<close>.
\<close>

definition is_digit :: "char \<Rightarrow> bool" where
  "is_digit c = (c \<in> set ''0123456789'')"

definition digit_val :: "char \<Rightarrow> 64 word" where
  "digit_val c = of_nat (of_char c - 48)"

definition parseUint :: "string \<Rightarrow> 64 word option" where
  "parseUint seg =
     (if seg = [] \<or> \<not> list_all is_digit seg then None
      else Some (foldl (\<lambda>n c. n * 10 + digit_val c) 0 seg))"

definition array_index :: "string \<Rightarrow> nat option" where
  "array_index seg =
     (case parseUint seg of
        None \<Rightarrow> None
      | Some n \<Rightarrow> if 0 \<le> sint n then Some (nat (sint n)) else None)"

text \<open>
  Walking a value along the components: a component selects the first member with that
  key in an object and the element with that index in an array, and nothing in a scalar.
\<close>

fun walk :: "json \<Rightarrow> string list \<Rightarrow> json option" where
  "walk j [] = Some j"
| "walk (JObject kvs) (seg # segs) =
     (case map_of kvs seg of None \<Rightarrow> None | Some v \<Rightarrow> walk v segs)"
| "walk (JArray xs) (seg # segs) =
     (case array_index seg of
        None \<Rightarrow> None
      | Some i \<Rightarrow> if i < length xs then walk (xs ! i) segs else None)"
| "walk j (seg # segs) = None"

text \<open>The result for a value found, and the zero result of a failed lookup.\<close>

fun found :: "json \<Rightarrow> gjson_Result" where
  "found JNull = \<lparr>res_Type = gjson_Null, res_Raw = ''null'', res_Str = [], res_Num = 0\<rparr>"
| "found (JBool b) =
     \<lparr>res_Type = (if b then gjson_True else gjson_False),
      res_Raw = json_text (JBool b), res_Str = [], res_Num = 0\<rparr>"
| "found (JNumber spelling v) =
     \<lparr>res_Type = gjson_Number, res_Raw = spelling, res_Str = [], res_Num = v\<rparr>"
| "found (JString s) =
     \<lparr>res_Type = gjson_String, res_Raw = json_text (JString s), res_Str = s, res_Num = 0\<rparr>"
| "found (JArray xs) =
     \<lparr>res_Type = gjson_JSON, res_Raw = json_text (JArray xs), res_Str = [], res_Num = 0\<rparr>"
| "found (JObject kvs) =
     \<lparr>res_Type = gjson_JSON, res_Raw = json_text (JObject kvs), res_Str = [], res_Num = 0\<rparr>"

definition not_found :: gjson_Result where
  "not_found = \<lparr>res_Type = gjson_Null, res_Raw = [], res_Str = [], res_Num = 0\<rparr>"

text \<open>
  \<^verbatim>\<open>gjson.Get(text, path)\<close> on a JSON text and a plain path; \<open>beyond\<close> stands for the
  library on every other argument.
\<close>

definition Get_plain ::
  "(string \<Rightarrow> json option) \<Rightarrow> (string \<Rightarrow> string \<Rightarrow> gjson_Result) \<Rightarrow>
   string \<Rightarrow> string \<Rightarrow> gjson_Result" where
  "Get_plain rd beyond text path =
     (case rd text of
        None \<Rightarrow> beyond text path
      | Some j \<Rightarrow>
          if plain_path path
          then (case walk j (split_dots path) of None \<Rightarrow> not_found | Some v \<Rightarrow> found v)
          else beyond text path)"

subsection \<open>Expressions\<close>

text \<open>
  The syntax tree of an expression. An operator is a call of the function the library
  names after it: \<^verbatim>\<open>a + b\<close> is \<open>Call ''_+_'' [a, b]\<close>, \<^verbatim>\<open>!a\<close> is \<open>Call ''!_'' [a]\<close>.
\<close>

datatype expr =
    Lit ref_val
  | Ident string
  | Select expr string
  | Call string "expr list"

text \<open>The dotted name an expression spells, when it is a chain of selections on a name.\<close>

fun qualified_name :: "expr \<Rightarrow> string option" where
  "qualified_name (Ident x) = Some x"
| "qualified_name (Select e f) =
     (case qualified_name e of None \<Rightarrow> None | Some q \<Rightarrow> Some (q @ ''.'' @ f))"
| "qualified_name (Lit v) = None"
| "qualified_name (Call f es) = None"

text \<open>What the two grammars and the rest of \<^verbatim>\<open>gjson\<close> yield.\<close>

record readers =
  read_json :: "string \<Rightarrow> json option"
  read_expr :: "string \<Rightarrow> expr option"
  gjson_beyond :: "string \<Rightarrow> string \<Rightarrow> gjson_Result"

subsection \<open>The compiler (\<^verbatim>\<open>cel.Env.Compile\<close>)\<close>

text \<open>
  Adding the variable declarations to the checker, one after the other: a declaration of
  a name already declared is dropped when its type is that of the declaration in scope,
  and is an overlapping identifier otherwise. The result lists the overlapping names.
\<close>

fun add_idents ::
  "(string \<times> cel_type) list \<Rightarrow> (string \<times> cel_type) list \<Rightarrow> string list" where
  "add_idents scope [] = []"
| "add_idents scope (d # ds) =
     (case map_of scope (fst d) of
        None \<Rightarrow> add_idents (scope @ [d]) ds
      | Some t \<Rightarrow> if t = snd d then add_idents scope ds else fst d # add_idents scope ds)"

text \<open>
  An argument of type \<open>a\<close> is accepted for a parameter of type \<open>p\<close>: the dynamic type
  and the type of an erroneous expression go with every type, maps and lists go by their
  parameters, every other type with itself.
\<close>

definition loose :: "cel_type \<Rightarrow> bool" where
  "loose t = (t = DynType \<or> t = ErrorType)"

primrec assignable :: "cel_type \<Rightarrow> cel_type \<Rightarrow> bool" where
  "assignable DynType p = True"
| "assignable ErrorType p = True"
| "assignable (MapType k v) p =
     (case p of MapType k' v' \<Rightarrow> assignable k k' \<and> assignable v v' | _ \<Rightarrow> loose p)"
| "assignable (ListType a) p =
     (case p of ListType b \<Rightarrow> assignable a b | _ \<Rightarrow> loose p)"
| "assignable BoolType p = (p = BoolType \<or> loose p)"
| "assignable StringType p = (p = StringType \<or> loose p)"
| "assignable IntType p = (p = IntType \<or> loose p)"
| "assignable UintType p = (p = UintType \<or> loose p)"
| "assignable DoubleType p = (p = DoubleType \<or> loose p)"
| "assignable BytesType p = (p = BytesType \<or> loose p)"
| "assignable TimestampType p = (p = TimestampType \<or> loose p)"
| "assignable DurationType p = (p = DurationType \<or> loose p)"
| "assignable NullType p = (p = NullType \<or> loose p)"
| "assignable (ObjectType n) p = (p = ObjectType n \<or> loose p)"

text \<open>The signatures of the operators of the fragment, but for equality.\<close>

definition operator_signatures :: "string \<Rightarrow> (cel_type list \<times> cel_type) list" where
  "operator_signatures f =
     (if f = ''_+_'' then
        [([IntType, IntType], IntType), ([UintType, UintType], UintType),
         ([DoubleType, DoubleType], DoubleType), ([StringType, StringType], StringType),
         ([BytesType, BytesType], BytesType),
         ([ListType DynType, ListType DynType], ListType DynType),
         ([DurationType, DurationType], DurationType),
         ([DurationType, TimestampType], TimestampType),
         ([TimestampType, DurationType], TimestampType)]
      else if f = ''!_'' then [([BoolType], BoolType)]
      else if f = ''_&&_'' \<or> f = ''_||_'' then [([BoolType, BoolType], BoolType)]
      else [])"

text \<open>The signatures a call of \<open>f\<close> is checked against: an operator's, or the declared ones.\<close>

definition signatures :: "env_option list \<Rightarrow> string \<Rightarrow> (cel_type list \<times> cel_type) list" where
  "signatures env f =
     operator_signatures f @ map (\<lambda>ov. (argTypes ov, resultType ov)) (overloads_of env f)"

definition accepts :: "cel_type list \<Rightarrow> cel_type list \<times> cel_type \<Rightarrow> bool" where
  "accepts ts sig = (length ts = length (fst sig) \<and> list_all2 assignable ts (fst sig))"

text \<open>
  The type of a call and the issue it raises, from the types of its arguments: equality
  takes two arguments of types that go with each other; any other function must be declared
  and have a signature that accepts the arguments; when signatures with different result
  types accept them, the type is dynamic.
\<close>

definition check_call ::
  "env_option list \<Rightarrow> string \<Rightarrow> cel_type list \<Rightarrow> cel_type \<times> cel_issue list" where
  "check_call env f ts =
     (if f = ''_==_'' \<or> f = ''_!=_'' then
        (case ts of
           [a, b] \<Rightarrow> if assignable a b \<and> assignable b a then (BoolType, [])
                     else (ErrorType, [NoMatchingOverload f ts])
         | _ \<Rightarrow> (ErrorType, [NoMatchingOverload f ts]))
      else if signatures env f = [] then (ErrorType, [UndeclaredReference f])
      else (case filter (accepts ts) (signatures env f) of
              [] \<Rightarrow> (ErrorType, [NoMatchingOverload f ts])
            | sig # sigs \<Rightarrow>
                if list_all (\<lambda>s. snd s = snd sig) sigs then (snd sig, [])
                else (DynType, [])))"

text \<open>The type of a selection from a value of type \<open>t\<close>.\<close>

fun check_select :: "cel_type \<Rightarrow> cel_type \<times> cel_issue list" where
  "check_select (MapType k v) = (v, [])"
| "check_select DynType = (DynType, [])"
| "check_select ErrorType = (ErrorType, [])"
| "check_select (ObjectType n) = (DynType, [])"
| "check_select t = (ErrorType, [NoFieldSelection t])"

text \<open>
  The type checker: the type of an expression and all the issues found in it, those of the
  subexpressions first. A selection that spells the dotted name of a declared variable is
  that variable.
\<close>

fun check :: "env_option list \<Rightarrow> expr \<Rightarrow> cel_type \<times> cel_issue list" where
  "check env (Lit v) = (val_Type v, [])"
| "check env (Ident x) =
     (case map_of (variable_decls env) x of
        Some t \<Rightarrow> (t, [])
      | None \<Rightarrow> (ErrorType, [UndeclaredReference x]))"
| "check env (Select e f) =
     (case (case qualified_name (Select e f) of
              None \<Rightarrow> None
            | Some q \<Rightarrow> map_of (variable_decls env) q) of
        Some t \<Rightarrow> (t, [])
      | None \<Rightarrow>
          (let r = check env e; s = check_select (fst r) in (fst s, snd r @ snd s)))"
| "check env (Call f es) =
     (let rs = map (check env) es; c = check_call env f (map fst rs)
      in (fst c, concat (map snd rs) @ snd c))"

text \<open>
  \<^verbatim>\<open>Compile\<close>: parse; then set up the checker with the declarations, which fails as one
  issue naming the overlapping identifiers; then check. The checked expression is returned
  when there is no issue.
\<close>

definition Compile_model ::
  "(string \<Rightarrow> expr option) \<Rightarrow> env_option list \<Rightarrow> string \<Rightarrow> expr option \<times> Issues option" where
  "Compile_model rd env text =
     (case rd text of
        None \<Rightarrow> (None, Some (Issues [SyntaxError]))
      | Some e \<Rightarrow>
          if add_idents [] (variable_decls env) \<noteq> []
          then (None, Some (Issues [OverlappingIdentifiers (add_idents [] (variable_decls env))]))
          else if snd (check env e) \<noteq> [] then (None, Some (Issues (snd (check env e))))
          else (Some e, None))"

subsection \<open>The evaluator (\<^verbatim>\<open>cel.Program.Eval\<close>)\<close>

text \<open>The kind of a type: its tag, without parameters.\<close>

datatype value_kind =
    KBool | KString | KInt | KUint | KDouble | KBytes | KTimestamp | KMapping | KList | KNull
  | KDyn | KOpaque string | KError | KDuration

fun kind_of :: "cel_type \<Rightarrow> value_kind" where
  "kind_of BoolType = KBool"
| "kind_of StringType = KString"
| "kind_of IntType = KInt"
| "kind_of UintType = KUint"
| "kind_of DoubleType = KDouble"
| "kind_of BytesType = KBytes"
| "kind_of TimestampType = KTimestamp"
| "kind_of (MapType k v) = KMapping"
| "kind_of (ListType a) = KList"
| "kind_of NullType = KNull"
| "kind_of DynType = KDyn"
| "kind_of (ObjectType n) = KOpaque n"
| "kind_of ErrorType = KError"
| "kind_of DurationType = KDuration"

text \<open>
  The CEL value a bound Go value is adapted to at evaluation time
  (\<^verbatim>\<open>types.DefaultTypeAdapter.NativeToValue\<close>), for the values the decoder produces.
\<close>

fun NativeToValue :: "go_value \<Rightarrow> ref_val"
  and NativeToValue_elements :: "go_value list \<Rightarrow> ref_val list"
  and NativeToValue_entries :: "(string \<times> go_value) list \<Rightarrow> (ref_val \<times> ref_val) list" where
  "NativeToValue VNil = types_Null"
| "NativeToValue (VBool b) = types_Bool b"
| "NativeToValue (VFloat64 f) = types_Double f"
| "NativeToValue (VString s) = types_String s"
| "NativeToValue (VSlice xs) = types_List (NativeToValue_elements xs)"
| "NativeToValue (VMap kvs) = types_Map (NativeToValue_entries kvs)"
| "NativeToValue (VOther t) = types_Err ''unsupported type conversion''"
| "NativeToValue_elements [] = []"
| "NativeToValue_elements (x # xs) = NativeToValue x # NativeToValue_elements xs"
| "NativeToValue_entries [] = []"
| "NativeToValue_entries (kv # kvs) =
     (types_String (fst kv), NativeToValue (snd kv)) # NativeToValue_entries kvs"

text \<open>
  Equality of values: numbers are compared by value across the three numeric types, lists
  element by element, maps entry by entry whatever the order; values of different types
  are not equal.
\<close>

definition numeric_value :: "ref_val \<Rightarrow> real option" where
  "numeric_value v =
     (case v of
        types_Int i \<Rightarrow> Some (real_of_int (sint i))
      | types_Uint u \<Rightarrow> Some (real (unat u))
      | types_Double d \<Rightarrow> Some d
      | _ \<Rightarrow> None)"

definition scalar_equal :: "ref_val \<Rightarrow> ref_val \<Rightarrow> bool" where
  "scalar_equal a b =
     (case numeric_value a of
        None \<Rightarrow> a = b
      | Some x \<Rightarrow> (case numeric_value b of None \<Rightarrow> False | Some y \<Rightarrow> x = y))"

fun ref_equal :: "ref_val \<Rightarrow> ref_val \<Rightarrow> bool" where
  "ref_equal a b =
     (case a of
        types_List xs \<Rightarrow>
          (case b of types_List ys \<Rightarrow> list_all2 ref_equal xs ys | _ \<Rightarrow> False)
      | types_Map m \<Rightarrow>
          (case b of
             types_Map m' \<Rightarrow>
               length m = length m' \<and>
               (\<forall>kv \<in> set m. \<exists>kv' \<in> set m'.
                   ref_equal (fst kv) (fst kv') \<and> ref_equal (snd kv) (snd kv'))
           | _ \<Rightarrow> False)
      | _ \<Rightarrow> scalar_equal a b)"

text \<open>Addition: within one type, with an error on integer overflow.\<close>

definition add_values :: "ref_val \<Rightarrow> ref_val \<Rightarrow> go_error + ref_val" where
  "add_values x y =
     (case x of
        types_Int a \<Rightarrow>
          (case y of
             types_Int b \<Rightarrow>
               if - (2 ^ 63) \<le> sint a + sint b \<and> sint a + sint b < 2 ^ 63
               then Inr (types_Int (a + b)) else Inl ''integer overflow''
           | _ \<Rightarrow> Inl ''no such overload'')
      | types_Uint a \<Rightarrow>
          (case y of
             types_Uint b \<Rightarrow>
               if unat a + unat b < 2 ^ 64 then Inr (types_Uint (a + b))
               else Inl ''unsigned integer overflow''
           | _ \<Rightarrow> Inl ''no such overload'')
      | types_Double a \<Rightarrow>
          (case y of types_Double b \<Rightarrow> Inr (types_Double (a + b))
           | _ \<Rightarrow> Inl ''no such overload'')
      | types_String a \<Rightarrow>
          (case y of types_String b \<Rightarrow> Inr (types_String (a @ b))
           | _ \<Rightarrow> Inl ''no such overload'')
      | types_Bytes a \<Rightarrow>
          (case y of types_Bytes b \<Rightarrow> Inr (types_Bytes (a @ b))
           | _ \<Rightarrow> Inl ''no such overload'')
      | types_List a \<Rightarrow>
          (case y of types_List b \<Rightarrow> Inr (types_List (a @ b))
           | _ \<Rightarrow> Inl ''no such overload'')
      | _ \<Rightarrow> Inl ''no such overload'')"

text \<open>
  The logical operators are not strict: a false operand of \<^verbatim>\<open>&&\<close> and a true operand of
  \<^verbatim>\<open>||\<close> decide the result whatever the other operand is.
\<close>

definition logical_and :: "go_error + ref_val \<Rightarrow> go_error + ref_val \<Rightarrow> go_error + ref_val" where
  "logical_and a b =
     (if a = Inr (types_Bool False) \<or> b = Inr (types_Bool False) then Inr (types_Bool False)
      else if a = Inr (types_Bool True) \<and> b = Inr (types_Bool True) then Inr (types_Bool True)
      else (case a of Inl err \<Rightarrow> Inl err
            | Inr v \<Rightarrow> (case b of Inl err \<Rightarrow> Inl err | Inr w \<Rightarrow> Inl ''no such overload'')))"

definition logical_or :: "go_error + ref_val \<Rightarrow> go_error + ref_val \<Rightarrow> go_error + ref_val" where
  "logical_or a b =
     (if a = Inr (types_Bool True) \<or> b = Inr (types_Bool True) then Inr (types_Bool True)
      else if a = Inr (types_Bool False) \<and> b = Inr (types_Bool False) then Inr (types_Bool False)
      else (case a of Inl err \<Rightarrow> Inl err
            | Inr v \<Rightarrow> (case b of Inl err \<Rightarrow> Inl err | Inr w \<Rightarrow> Inl ''no such overload'')))"

text \<open>The values of all arguments, or the first error among them.\<close>

fun strict :: "(go_error + ref_val) list \<Rightarrow> go_error + ref_val list" where
  "strict [] = Inr []"
| "strict (Inl err # rs) = Inl err"
| "strict (Inr v # rs) = (case strict rs of Inl err \<Rightarrow> Inl err | Inr vs \<Rightarrow> Inr (v # vs))"

text \<open>
  A call of a declared function: the first declared overload whose parameter types go
  with the types the arguments have at run time is applied through its binding; a panic in
  a binding is recovered as an error.
\<close>

definition runtime_match :: "ref_val \<Rightarrow> cel_type \<Rightarrow> bool" where
  "runtime_match v t = (t = DynType \<or> kind_of (val_Type v) = kind_of t)"

definition recovered :: "panic + ref_val \<Rightarrow> go_error + ref_val" where
  "recovered r = (case r of Inl p \<Rightarrow> Inl ''internal error'' | Inr v \<Rightarrow> Inr v)"

fun apply_binding :: "binding \<Rightarrow> ref_val list \<Rightarrow> go_error + ref_val" where
  "apply_binding (UnaryBinding g) [a] = recovered (g a)"
| "apply_binding (BinaryBinding g) [a, b] = recovered (g a b)"
| "apply_binding g vs = Inl ''no such overload''"

definition call_function :: "env_option list \<Rightarrow> string \<Rightarrow> ref_val list \<Rightarrow> go_error + ref_val" where
  "call_function env f vs =
     (case filter (\<lambda>ov. length vs = length (argTypes ov) \<and>
                         list_all2 runtime_match vs (argTypes ov)) (overloads_of env f) of
        [] \<Rightarrow> Inl ''no such overload''
      | ov # ovs \<Rightarrow> apply_binding (impl ov) vs)"

definition apply_function ::
  "env_option list \<Rightarrow> string \<Rightarrow> (go_error + ref_val) list \<Rightarrow> go_error + ref_val" where
  "apply_function env f rs =
     (if f = ''_&&_'' then
        (case rs of [a, b] \<Rightarrow> logical_and a b | _ \<Rightarrow> Inl ''no such overload'')
      else if f = ''_||_'' then
        (case rs of [a, b] \<Rightarrow> logical_or a b | _ \<Rightarrow> Inl ''no such overload'')
      else
        (case strict rs of
           Inl err \<Rightarrow> Inl err
         | Inr vs \<Rightarrow>
             if f = ''_==_'' then
               (case vs of [a, b] \<Rightarrow> Inr (types_Bool (ref_equal a b))
                | _ \<Rightarrow> Inl ''no such overload'')
             else if f = ''_!=_'' then
               (case vs of [a, b] \<Rightarrow> Inr (types_Bool (\<not> ref_equal a b))
                | _ \<Rightarrow> Inl ''no such overload'')
             else if f = ''!_'' then
               (case vs of [types_Bool b] \<Rightarrow> Inr (types_Bool (\<not> b))
                | _ \<Rightarrow> Inl ''no such overload'')
             else if f = ''_+_'' then
               (case vs of [a, b] \<Rightarrow> add_values a b | _ \<Rightarrow> Inl ''no such overload'')
             else call_function env f vs))"

text \<open>The value bound to a name.\<close>

definition bound_value :: "(string \<times> go_value) list \<Rightarrow> string \<Rightarrow> go_error + ref_val" where
  "bound_value vars x =
     (case map_of vars x of
        None \<Rightarrow> Inl ''no such attribute''
      | Some v \<Rightarrow> Inr (NativeToValue v))"

text \<open>The field of a value: the entry of a map under the field name.\<close>

definition select_field :: "ref_val \<Rightarrow> string \<Rightarrow> go_error + ref_val" where
  "select_field v f =
     (case v of
        types_Map m \<Rightarrow>
          (case map_of m (types_String f) of
             None \<Rightarrow> Inl ''no such key''
           | Some w \<Rightarrow> Inr w)
      | _ \<Rightarrow> Inl ''no such overload'')"

fun eval :: "env_option list \<Rightarrow> (string \<times> go_value) list \<Rightarrow> expr \<Rightarrow> go_error + ref_val" where
  "eval env vars (Lit v) = Inr v"
| "eval env vars (Ident x) = bound_value vars x"
| "eval env vars (Select e f) =
     (case (case qualified_name (Select e f) of
              None \<Rightarrow> None
            | Some q \<Rightarrow> map_option (\<lambda>t. q) (map_of (variable_decls env) q)) of
        Some q \<Rightarrow> bound_value vars q
      | None \<Rightarrow>
          (case eval env vars e of Inl err \<Rightarrow> Inl err | Inr v \<Rightarrow> select_field v f))"
| "eval env vars (Call f es) = apply_function env f (map (eval env vars) es)"

subsection \<open>The three libraries together\<close>

definition no_proto :: "go_type \<Rightarrow> bool" where
  "no_proto t = False"

text \<open>
  The environment is the list of options it was built from, the checked expression is the
  syntax tree, the program is the pair of both. None of the values the decoder produces is
  a protocol message.
\<close>

definition golib ::
  "readers \<Rightarrow> (env_option list, expr option, env_option list \<times> expr) collaborators" where
  "golib R =
     \<lparr>json_Unmarshal = Unmarshal_map (read_json R),
      gjson_Get = Get_plain (read_json R) (gjson_beyond R),
      proto_Message = no_proto,
      cel_NewEnv = (\<lambda>opts. Inr opts),
      Env_Compile = Compile_model (read_expr R),
      Env_Program = (\<lambda>env ast. case ast of None \<Rightarrow> Inl ''no expression''
                                  | Some e \<Rightarrow> Inr (env, e)),
      Program_Eval = (\<lambda>prg vars. eval (fst prg) vars (snd prg))\<rparr>"

subsection \<open>Notions the properties are stated with\<close>











subsection \<open>Sample texts\<close>

text \<open>
  The readers on a few texts, each given with the value or the syntax tree it spells, for
  running \<^verbatim>\<open>Evaluate\<close> on concrete inputs; every other text is unreadable to them.
\<close>

definition sample_doc :: string where
  \<open>sample_doc = ''{"a":{"b":1},"x":"s"}''\<close>

definition sample_json :: json where
  "sample_json = JObject [(''a'', JObject [(''b'', JNumber ''1'' 1)]), (''x'', JString ''s'')]"

definition sample_map :: "(string \<times> go_value) list" where
  "sample_map = [(''a'', VMap [(''b'', VFloat64 1)]), (''x'', VString ''s'')]"

definition nested_doc :: string where
  \<open>nested_doc = ''{"a":{"b":[{"c":1}]}}''\<close>

definition nested_json :: json where
  "nested_json = JObject [(''a'', JObject [(''b'', JArray [JObject [(''c'', JNumber ''1'' 1)]])])]"

definition sample_read_json :: "string \<Rightarrow> json option" where
  "sample_read_json text =
     (if text = sample_doc then Some sample_json
      else if text = nested_doc then Some nested_json
      else if text = ''null'' then Some JNull
      else if text = ''[1,2]'' then Some (JArray [JNumber ''1'' 1, JNumber ''2'' 2])
      else None)"

definition sample_read_expr :: "string \<Rightarrow> expr option" where
  \<open>sample_read_expr text =
     (if text = ''true'' then Some (Lit (types_Bool True))
      else if text = ''1 + 1'' then Some (Call ''_+_'' [Lit (types_Int 1), Lit (types_Int 1)])
      else if text = ''a.b + 1 == 2'' then
        Some (Call ''_==_'' [Call ''_+_'' [Select (Ident ''a'') ''b'', Lit (types_Int 1)],
                             Lit (types_Int 2)])
      else if text = ''x + 1 == 2'' then
        Some (Call ''_==_'' [Call ''_+_'' [Ident ''x'', Lit (types_Int 1)], Lit (types_Int 2)])
      else if text = ''y == 1'' then Some (Call ''_==_'' [Ident ''y'', Lit (types_Int 1)])
      else if text = ''x == "s"'' then Some (Call ''_==_'' [Ident ''x'', Lit (types_String ''s'')])
      else if text = ''exists("a.b[0].c")'' then
        Some (Call ''exists'' [Lit (types_String ''a.b[0].c'')])
      else if text = ''exists("a.b.0.c")'' then
        Some (Call ''exists'' [Lit (types_String ''a.b.0.c'')])
      else if text = ''exists("a.b") && !exists("a.c")'' then
        Some (Call ''_&&_'' [Call ''exists'' [Lit (types_String ''a.b'')],
                             Call ''!_'' [Call ''exists'' [Lit (types_String ''a.c'')]]])
      else if text = ''safe("role", "guest") == "guest"'' then
        Some (Call ''_==_'' [Call ''safe'' [Lit (types_String ''role''), Lit (types_String ''guest'')],
                             Lit (types_String ''guest'')])
      else if text = ''safe("x", 0.0) == 0.0'' then
        Some (Call ''_==_'' [Call ''safe'' [Lit (types_String ''x''), Lit (types_Double 0)],
                             Lit (types_Double 0)])
      else if text = ''safe("x", 1) == 1'' then
        Some (Call ''_==_'' [Call ''safe'' [Lit (types_String ''x''), Lit (types_Int 1)],
                             Lit (types_Int 1)])
      else None)\<close>

definition sample_readers :: readers where
  "sample_readers =
     \<lparr>read_json = sample_read_json, read_expr = sample_read_expr,
      gjson_beyond = (\<lambda>text path. not_found)\<rparr>"

definition sample_lib ::
  "(env_option list, expr option, env_option list \<times> expr) collaborators" where
  "sample_lib = golib sample_readers"

section \<open>Properties\<close>

subsection \<open>Auxiliary facts\<close>

lemma val_Type_Bool: "val_Type out = BoolType \<longleftrightarrow> (\<exists>b. out = types_Bool b)"
  by (cases out) auto

lemma golib_sel:
  "json_Unmarshal (golib R) = Unmarshal_map (read_json R)"
  "gjson_Get (golib R) = Get_plain (read_json R) (gjson_beyond R)"
  "proto_Message (golib R) = no_proto"
  "cel_NewEnv (golib R) = (\<lambda>opts. Inr opts)"
  "Env_Compile (golib R) = Compile_model (read_expr R)"
  "Env_Program (golib R) =
     (\<lambda>env ast. case ast of None \<Rightarrow> Inl ''no expression'' | Some e \<Rightarrow> Inr (env, e))"
  "Program_Eval (golib R) = (\<lambda>prg vars. eval (fst prg) vars (snd prg))"
  by (simp_all add: golib_def)

lemma variable_decls_append:
  "variable_decls (xs @ ys) = variable_decls xs @ variable_decls ys"
  by (induction xs rule: variable_decls.induct) simp_all

lemma variable_decls_map_Variable:
  "variable_decls (map (\<lambda>(k, v). Variable k (f v)) vm) = map (\<lambda>(k, v). (k, f v)) vm"
  by (induction vm) auto

lemma variable_decls_envOptions:
  "variable_decls (envOptions L d extra vm) =
     variable_decls extra @ map (\<lambda>(k, v). (k, valueToCelType (proto_Message L) v)) vm"
  by (simp add: envOptions_def variable_decls_append variable_decls_map_Variable
      celExists_def safeBool_def safeString_def safeNum_def)

text \<open>
  Once the document is decoded, every run starts with the decoder call and the call of
  \<^verbatim>\<open>cel.NewEnv\<close> on \<open>envOptions\<close>.
\<close>

lemma Evaluate_calls_prefix:
  assumes "json_Unmarshal L d = Inr vm"
  shows "\<exists>rest. snd (Evaluate L (Some d) e extra) =
           Call_Unmarshal d # Call_NewEnv (envOptions L d extra vm) # rest"
  using assms
  by (auto simp: Evaluate_def Let_def split: sum.splits prod.splits ref_val.splits)

text \<open>What \<^verbatim>\<open>Evaluate\<close> returns when the compiler reports errors, whatever the libraries.\<close>

lemma Evaluate_compile_failure:
  assumes "json_Unmarshal L d = Inr vm"
    and "cel_NewEnv L (envOptions L d extra vm) = Inr env"
    and "Env_Compile L env e = (ast, Some i)"
    and "Errors i \<noteq> []"
  shows "Evaluate L (Some d) e extra =
           ((False, Some (catcher_Error ''failed to compile expression'' None
                [(''expression'', CtxString e), (''issues'', CtxIssues (Errors i))])),
            [Call_Unmarshal d, Call_NewEnv (envOptions L d extra vm), Call_Compile env e])"
  using assms by (simp add: Evaluate_def Issues_Err_def)

text \<open>What a run that reaches the evaluator has gone through.\<close>

lemma reach_eval:
  assumes "Call_Eval prg vm \<in> set (snd (Evaluate L data e extra))"
  shows "\<exists>d env ast issues. data = Some d \<and> json_Unmarshal L d = Inr vm \<and>
           cel_NewEnv L (envOptions L d extra vm) = Inr env \<and>
           Env_Compile L env e = (ast, issues) \<and>
           \<not> (issues \<noteq> None \<and> Issues_Err (the issues) \<noteq> None) \<and>
           Call_NewEnv (envOptions L d extra vm) \<in> set (snd (Evaluate L data e extra))"
  using assms
  by (auto simp: Evaluate_def Let_def
      split: option.splits sum.splits prod.splits if_splits ref_val.splits)

text \<open>
  When the checker takes all declarations without an overlap, every declaration is the
  one found under its name: two declarations of a name have the same type.
\<close>

lemma add_idents_consistent:
  "add_idents scope ds = [] \<Longrightarrow> distinct (map fst scope) \<Longrightarrow>
   (k, t) \<in> set (scope @ ds) \<Longrightarrow> map_of (scope @ ds) k = Some t"
proof (induction scope ds arbitrary: k t rule: add_idents.induct)
  case (1 scope)
  then show ?case by simp
next
  case (2 scope d ds)
  show ?case
  proof (cases "map_of scope (fst d)")
    case None
    then have fresh: "fst d \<notin> fst ` set scope"
      by (simp add: map_of_eq_None_iff)
    have a: "add_idents (scope @ [d]) ds = []" using "2.prems"(1) None by simp
    have b: "distinct (map fst (scope @ [d]))" using "2.prems"(2) fresh by simp
    have c: "(k, t) \<in> set ((scope @ [d]) @ ds)" using "2.prems"(3) by simp
    from "2.IH"(1) [OF None a b c] show ?thesis by simp
  next
    case (Some t')
    then have eq: "t' = snd d" and a: "add_idents scope ds = []"
      using "2.prems"(1) by (auto split: if_splits)
    have ih: "\<And>k t. (k, t) \<in> set (scope @ ds) \<Longrightarrow> map_of (scope @ ds) k = Some t"
      using "2.IH"(2) [OF Some eq a "2.prems"(2)] by blast
    show ?thesis
    proof (cases "(k, t) = d")
      case True
      then show ?thesis using Some eq by (auto simp: map_add_def)
    next
      case False
      then have mem: "(k, t) \<in> set (scope @ ds)" using "2.prems"(3) by auto
      show ?thesis
      proof (cases "map_of scope k")
        case None
        then have "k \<noteq> fst d" using Some by auto
        then show ?thesis using ih [OF mem] None by (simp add: map_add_def)
      next
        case (Some u)
        then show ?thesis using ih [OF mem] by (simp add: map_add_def)
      qed
    qed
  qed
qed

lemma add_idents_unique:
  assumes "add_idents [] ds = []" and "(k, t) \<in> set ds" and "(k, t') \<in> set ds"
  shows "t = t'"
  using add_idents_consistent [OF assms(1), of k t] add_idents_consistent [OF assms(1), of k t']
    assms(2,3) by simp

lemma add_idents_overlap:
  assumes "(k, t) \<in> set ds" and "(k, t') \<in> set ds" and "t \<noteq> t'"
  shows "add_idents [] ds \<noteq> []"
  using add_idents_unique assms by blast

lemma Compile_model_ok:
  assumes "Compile_model rd env text = (ast, issues)"
    and "\<not> (issues \<noteq> None \<and> Issues_Err (the issues) \<noteq> None)"
  shows "add_idents [] (variable_decls env) = []"
  using assms
  by (auto simp: Compile_model_def Issues_Err_def split: option.splits if_splits)





text \<open>The values the decoder stores are images of JSON values.\<close>

lemma go_map_subset: "set (go_map xs) \<subseteq> set xs"
  by (induction xs) auto

lemma to_go_members_mem: "(k, v) \<in> set (to_go_members kvs) \<Longrightarrow> \<exists>j. v = to_go j"
  by (induction kvs) auto

lemma kind_to_go:
  "kind_of (val_Type (NativeToValue (to_go j))) = kind_of (valueToCelType pm (to_go j))"
  by (cases j) (simp_all add: valueToCelType_def time_Time_def structpb_Value_def)

lemma Unmarshal_map_values:
  assumes "Unmarshal_map rd d = Inr vm" and "(k, v) \<in> set vm"
  shows "\<exists>j. v = to_go j"
proof -
  obtain kvs where "vm = go_map (to_go_members kvs)"
    using assms by (auto simp: Unmarshal_map_def split: option.splits json.splits)
  then have "(k, v) \<in> set (to_go_members kvs)" using assms(2) go_map_subset by blast
  then show ?thesis by (rule to_go_members_mem)
qed








text \<open>The sample texts, decoded.\<close>

lemma sample_Unmarshal: "json_Unmarshal sample_lib sample_doc = Inr sample_map"
  by code_simp


subsection \<open>Declarations of the caller and of the document\<close>

text \<open>
  C1, as the code has it. A caller-supplied declaration of a name that is also a top-level
  key of the document does not take precedence. \<^verbatim>\<open>Evaluate\<close> hands the environment both
  the caller's declaration and the document's, whose kind is classified from the value.
  When the two kinds differ, the compiler rejects the declarations as an overlapping
  identifier: for every expression \<^verbatim>\<open>Evaluate\<close> returns the compile error, the compiler
  call is the last library call and nothing is evaluated. The caller passes declarations
  only, as the specification has it.
\<close>

theorem collision_is_compile_error:
  assumes "json_Unmarshal (golib R) d = Inr vm"
    and "list_all is_Variable extra"
    and "(k, t) \<in> set (variable_decls extra)"
    and "(k, v) \<in> set vm"
    and "t \<noteq> valueToCelType no_proto v"
  shows "(k, t) \<in> set (variable_decls (envOptions (golib R) d extra vm)) \<and>
         (k, valueToCelType no_proto v)
           \<in> set (variable_decls (envOptions (golib R) d extra vm)) \<and>
         (\<exists>issues. issues \<noteq> [] \<and>
            (read_expr R e \<noteq> None \<longrightarrow>
               issues = [OverlappingIdentifiers
                           (add_idents [] (variable_decls (envOptions (golib R) d extra vm)))]) \<and>
            Evaluate (golib R) (Some d) e extra =
              ((False, Some (catcher_Error ''failed to compile expression'' None
                   [(''expression'', CtxString e), (''issues'', CtxIssues issues)])),
               [Call_Unmarshal d, Call_NewEnv (envOptions (golib R) d extra vm),
                Call_Compile (envOptions (golib R) d extra vm) e]))"
proof -
  let ?opts = "envOptions (golib R) d extra vm"
  have m1: "(k, t) \<in> set (variable_decls ?opts)"
    using assms(3) by (simp add: variable_decls_envOptions)
  have m2: "(k, valueToCelType no_proto v) \<in> set (variable_decls ?opts)"
    using assms(4) by (force simp: variable_decls_envOptions golib_sel)
  have ov: "add_idents [] (variable_decls ?opts) \<noteq> []"
    using add_idents_overlap [OF m1 m2 assms(5)] .
  have env: "cel_NewEnv (golib R) ?opts = Inr ?opts" by (simp add: golib_sel)
  show ?thesis
  proof (cases "read_expr R e")
    case None
    have c: "Env_Compile (golib R) ?opts e = (None, Some (Issues [SyntaxError]))"
      using None by (simp add: golib_sel Compile_model_def)
    have "Errors (Issues [SyntaxError]) \<noteq> []" by simp
    from Evaluate_compile_failure [OF assms(1) env c this] m1 m2 None
    show ?thesis by auto
  next
    case (Some ast)
    let ?i = "Issues [OverlappingIdentifiers (add_idents [] (variable_decls ?opts))]"
    have c: "Env_Compile (golib R) ?opts e = (None, Some ?i)"
      using Some ov by (simp add: golib_sel Compile_model_def)
    have "Errors ?i \<noteq> []" by simp
    from Evaluate_compile_failure [OF assms(1) env c this] m1 m2
    show ?thesis by auto
  qed
qed

text \<open>
  The sample document has the key \<open>x\<close> with a string value; the caller declares \<open>x\<close>
  as an integer.
\<close>

theorem collision_is_compile_error_witness:
  "json_Unmarshal (golib sample_readers) sample_doc = Inr sample_map \<and>
   list_all is_Variable [Variable ''x'' IntType] \<and>
   (''x'', IntType) \<in> set (variable_decls [Variable ''x'' IntType]) \<and>
   (''x'', VString ''s'') \<in> set sample_map \<and>
   IntType \<noteq> valueToCelType no_proto (VString ''s'') \<and>
   Evaluate (golib sample_readers) (Some sample_doc) ''true'' [Variable ''x'' IntType] =
     ((False, Some (catcher_Error ''failed to compile expression'' None
          [(''expression'', CtxString ''true''),
           (''issues'', CtxIssues [OverlappingIdentifiers [''x'']])])),
      [Call_Unmarshal sample_doc,
       Call_NewEnv
         (envOptions (golib sample_readers) sample_doc [Variable ''x'' IntType] sample_map),
       Call_Compile
         (envOptions (golib sample_readers) sample_doc [Variable ''x'' IntType] sample_map)
         ''true''])"
proof -
  let ?extra = "[Variable ''x'' IntType]"
  let ?opts = "envOptions (golib sample_readers) sample_doc ?extra sample_map"
  have h1: "json_Unmarshal (golib sample_readers) sample_doc = Inr sample_map"
    using sample_Unmarshal by (simp add: sample_lib_def)
  have h2: "list_all is_Variable ?extra" by simp
  have h3: "(''x'', IntType) \<in> set (variable_decls ?extra)" by simp
  have h4: "(''x'', VString ''s'') \<in> set sample_map" by (simp add: sample_map_def)
  have h5: "IntType \<noteq> valueToCelType no_proto (VString ''s'')"
    by (simp add: valueToCelType_def)
  have r: "read_expr sample_readers ''true'' \<noteq> None" by code_simp
  have o: "add_idents [] (variable_decls ?opts) = [''x'']" by code_simp
  show ?thesis
    using h1 h2 h3 h4 h5 r o
      collision_is_compile_error [OF h1 h2 h3 h4 h5, of "''true''"]
    by auto
qed

text \<open>
  The claim as worded fails. With the caller's declaration alone the expression
  \<^verbatim>\<open>x + 1 == 2\<close> is well typed, \<open>x\<close> being an integer; on the sample document, whose
  \<open>x\<close> is a string, it is not compiled against the caller's kind: it is not compiled
  at all.
\<close>

theorem caller_kind_not_compiled_counterexample:
  "check [Variable ''x'' IntType]
     (Call ''_==_'' [Call ''_+_'' [Ident ''x'', Lit (types_Int 1)], Lit (types_Int 2)])
     = (BoolType, []) \<and>
   fst (Evaluate sample_lib (Some sample_doc) ''x + 1 == 2'' [Variable ''x'' IntType]) =
     (False, Some (catcher_Error ''failed to compile expression'' None
        [(''expression'', CtxString ''x + 1 == 2''),
         (''issues'', CtxIssues [OverlappingIdentifiers [''x'']])]))"
  by code_simp

subsection \<open>The accessor functions\<close>






text \<open>Two runs of the specification's examples, on the sample document.\<close>

lemma exists_nested_and_missing:
  \<open>fst (Evaluate sample_lib (Some sample_doc) ''exists("a.b") && !exists("a.c")'' [])
     = (True, None)\<close>
  by code_simp

lemma safe_kind_mismatch_falls_back:
  \<open>fst (Evaluate sample_lib (Some sample_doc) ''safe("x", 0.0) == 0.0'' []) = (True, None)\<close>
  by code_simp

subsection \<open>The classifier\<close>

text \<open>
  C4, as the code has it. The classifier is a function of the dynamic type of the value
  alone. It maps bool to Bool; string to String; int, int32 and int64 to Int; uint, uint32
  and uint64 to Uint; float32 and float64 to Double; a byte slice to Bytes; time.Time to
  Timestamp; the two map types \<^verbatim>\<open>map[string]interface{}\<close> and
  \<^verbatim>\<open>map[string]*structpb.Value\<close> to a map from String to Dyn; \<^verbatim>\<open>[]interface{}\<close> to a
  list of Dyn; nil to Null. A value of any type the switch does not list is Dyn when the
  type is a protocol message, and otherwise an object type named by the printed form of
  the type; two such values receive the same object type exactly when their types print
  the same.
\<close>

theorem valueToCelType_rules:
  "valueToCelType pm (VBool b) = BoolType \<and>
   valueToCelType pm (VOther TBool) = BoolType \<and>
   valueToCelType pm (VString s) = StringType \<and>
   valueToCelType pm (VOther TString) = StringType \<and>
   valueToCelType pm (VOther TInt) = IntType \<and>
   valueToCelType pm (VOther TInt32) = IntType \<and>
   valueToCelType pm (VOther TInt64) = IntType \<and>
   valueToCelType pm (VOther TUint) = UintType \<and>
   valueToCelType pm (VOther TUint32) = UintType \<and>
   valueToCelType pm (VOther TUint64) = UintType \<and>
   valueToCelType pm (VFloat64 f) = DoubleType \<and>
   valueToCelType pm (VOther TFloat32) = DoubleType \<and>
   valueToCelType pm (VOther TFloat64) = DoubleType \<and>
   valueToCelType pm (VOther (TSlice TUint8)) = BytesType \<and>
   valueToCelType pm (VOther time_Time) = TimestampType \<and>
   valueToCelType pm (VMap kvs) = MapType StringType DynType \<and>
   valueToCelType pm (VOther (TMap TString TInterface)) = MapType StringType DynType \<and>
   valueToCelType pm (VOther (TMap TString (TPtr structpb_Value)))
     = MapType StringType DynType \<and>
   valueToCelType pm (VSlice xs) = ListType DynType \<and>
   valueToCelType pm (VOther (TSlice TInterface)) = ListType DynType \<and>
   valueToCelType pm VNil = NullType \<and>
   (t \<notin> set listed_types \<longrightarrow>
      valueToCelType pm (VOther t) =
        (if pm t then DynType else ObjectType (Type_String t))) \<and>
   (t \<notin> set listed_types \<and> u \<notin> set listed_types \<and> \<not> pm t \<and> \<not> pm u \<longrightarrow>
      (valueToCelType pm (VOther t) = valueToCelType pm (VOther u)) =
      (Type_String t = Type_String u))"
  by (simp add: valueToCelType_def listed_types_def time_Time_def structpb_Value_def)

text \<open>Two types outside the switch: \<^verbatim>\<open>int16\<close> and \<^verbatim>\<open>[]string\<close>.\<close>

theorem valueToCelType_rules_witness:
  "TInt16 \<notin> set listed_types \<and> TSlice TString \<notin> set listed_types \<and>
   \<not> no_proto TInt16 \<and> \<not> no_proto (TSlice TString) \<and>
   valueToCelType no_proto (VOther TInt16) = ObjectType ''int16'' \<and>
   valueToCelType no_proto (VOther (TSlice TString)) = ObjectType ''[]string'' \<and>
   valueToCelType no_proto (VOther TInt16) \<noteq> valueToCelType no_proto (VOther (TSlice TString))"
proof -
  have l: "TInt16 \<notin> set listed_types" "TSlice TString \<notin> set listed_types"
    by (simp_all add: listed_types_def time_Time_def)
  have p: "\<not> no_proto TInt16" "\<not> no_proto (TSlice TString)"
    by (simp_all add: no_proto_def)
  note t = valueToCelType_rules [of no_proto _ _ _ _ _ TInt16 "TSlice TString"]
  note t' = valueToCelType_rules [of no_proto _ _ _ _ _ "TSlice TString" TInt16]
  have a: "valueToCelType no_proto (VOther TInt16) = ObjectType ''int16''"
    using t l p by simp
  have b: "valueToCelType no_proto (VOther (TSlice TString)) = ObjectType ''[]string''"
    using t' l p by simp
  have c: "valueToCelType no_proto (VOther TInt16) \<noteq>
           valueToCelType no_proto (VOther (TSlice TString))"
    using t l p b by simp
  show ?thesis using l p a b c by simp
qed

text \<open>
  The claim as worded fails: an \<^verbatim>\<open>int8\<close> value is a signed integer, and the classifier
  does not map it to Int. It reaches the default case.
\<close>

theorem valueToCelType_int8_counterexample:
  "valueToCelType no_proto (VOther TInt8) \<noteq> IntType"
  by (simp add: valueToCelType_def time_Time_def structpb_Value_def no_proto_def)

lemma valueToCelType_int8:
  "valueToCelType no_proto (VOther TInt8) = ObjectType ''int8''"
  by (simp add: valueToCelType_def time_Time_def structpb_Value_def no_proto_def)

text \<open>
  Types of two packages with the same package name and type name are distinct and print
  the same, so their values receive the same object type.
\<close>

lemma valueToCelType_same_name_alias:
  "TNamed ''a/foo'' ''foo'' ''T'' \<noteq> TNamed ''b/foo'' ''foo'' ''T'' \<and>
   valueToCelType no_proto (VOther (TNamed ''a/foo'' ''foo'' ''T'')) =
   valueToCelType no_proto (VOther (TNamed ''b/foo'' ''foo'' ''T''))"
  by (simp add: valueToCelType_def time_Time_def structpb_Value_def no_proto_def)

subsection \<open>The stages of \<^verbatim>\<open>Evaluate\<close>\<close>

text \<open>
  C5. For every expression (and every list of caller options), \<^verbatim>\<open>Evaluate\<close> on a nil
  data pointer returns false with the error \<^verbatim>\<open>data is nil\<close>, and calls no library: neither
  the decoder nor the environment builder, the compiler or the evaluator.
\<close>

theorem Evaluate_nil_data:
  "Evaluate L None e extra = ((False, Some (catcher_Error ''data is nil'' None [])), [])"
  by (simp add: Evaluate_def)

text \<open>
  C6, as the code has it. For every data string that is neither a well-formed JSON object
  nor the JSON literal \<^verbatim>\<open>null\<close>, \<^verbatim>\<open>Evaluate\<close> returns false with the error
  \<^verbatim>\<open>cannot unmarshal data\<close> carrying the decoder's error, and the decoder call is the only
  library call: no environment is built, nothing is compiled or evaluated. On the literal
  \<^verbatim>\<open>null\<close> the decoder reports no error and leaves the map nil, and \<^verbatim>\<open>Evaluate\<close> goes
  on to build the environment, without any document variable.
\<close>

theorem Evaluate_rejects_non_object:
  "(\<not> is_JObject (read_json R d) \<and> read_json R d \<noteq> Some JNull \<longrightarrow>
      (\<exists>err. Evaluate (golib R) (Some d) e extra =
         ((False, Some (catcher_Error ''cannot unmarshal data'' (Some err) [])),
          [Call_Unmarshal d]))) \<and>
   (read_json R d = Some JNull \<longrightarrow>
      (\<exists>rest. snd (Evaluate (golib R) (Some d) e extra) =
         Call_Unmarshal d # Call_NewEnv (envOptions (golib R) d extra []) # rest))"
proof (intro conjI impI)
  assume a: "\<not> is_JObject (read_json R d) \<and> read_json R d \<noteq> Some JNull"
  then obtain err where "json_Unmarshal (golib R) d = Inl err"
    by (cases "read_json R d"; cases "the (read_json R d)")
       (auto simp: golib_sel Unmarshal_map_def)
  then show "\<exists>err. Evaluate (golib R) (Some d) e extra =
         ((False, Some (catcher_Error ''cannot unmarshal data'' (Some err) [])),
          [Call_Unmarshal d])"
    by (auto simp: Evaluate_def)
next
  assume "read_json R d = Some JNull"
  then have "json_Unmarshal (golib R) d = Inr []"
    by (simp add: golib_sel Unmarshal_map_def)
  from Evaluate_calls_prefix [OF this]
  show "\<exists>rest. snd (Evaluate (golib R) (Some d) e extra) =
         Call_Unmarshal d # Call_NewEnv (envOptions (golib R) d extra []) # rest" .
qed

text \<open>A JSON array is rejected; the literal \<^verbatim>\<open>null\<close> is not.\<close>

theorem Evaluate_rejects_non_object_witness:
  "\<not> is_JObject (read_json sample_readers ''[1,2]'') \<and>
   read_json sample_readers ''[1,2]'' \<noteq> Some JNull \<and>
   read_json sample_readers ''null'' = Some JNull \<and>
   Evaluate (golib sample_readers) (Some ''[1,2]'') ''true'' [] =
     ((False, Some (catcher_Error ''cannot unmarshal data''
         (Some ''cannot unmarshal into Go value of type map[string]interface {}'') [])),
      [Call_Unmarshal ''[1,2]'']) \<and>
   take 2 (snd (Evaluate (golib sample_readers) (Some ''null'') ''true'' [])) =
     [Call_Unmarshal ''null'', Call_NewEnv (envOptions (golib sample_readers) ''null'' [] [])]"
proof -
  have a: "\<not> is_JObject (read_json sample_readers ''[1,2]'')" by code_simp
  have b: "read_json sample_readers ''[1,2]'' \<noteq> Some JNull" by code_simp
  have c: "read_json sample_readers ''null'' = Some JNull" by code_simp
  have u: "json_Unmarshal (golib sample_readers) ''[1,2]'' =
             Inl ''cannot unmarshal into Go value of type map[string]interface {}''"
    by code_simp
  have 1: "Evaluate (golib sample_readers) (Some ''[1,2]'') ''true'' [] =
     ((False, Some (catcher_Error ''cannot unmarshal data''
         (Some ''cannot unmarshal into Go value of type map[string]interface {}'') [])),
      [Call_Unmarshal ''[1,2]''])"
    using Evaluate_rejects_non_object [of sample_readers "''[1,2]''" "''true''" "[]"] a b u
    by (auto simp: Evaluate_def)
  have 2: "take 2 (snd (Evaluate (golib sample_readers) (Some ''null'') ''true'' [])) =
     [Call_Unmarshal ''null'', Call_NewEnv (envOptions (golib sample_readers) ''null'' [] [])]"
    using Evaluate_rejects_non_object [of sample_readers "''null''" "''true''" "[]"] c
    by auto
  show ?thesis using a b c 1 2 by simp
qed

text \<open>
  The claim as worded fails: the text \<^verbatim>\<open>null\<close> is not a JSON object, and on it
  \<^verbatim>\<open>Evaluate\<close> returns the verdict of the expression, with no error.
\<close>

theorem Evaluate_null_document_counterexample:
  "\<not> is_JObject (read_json sample_readers ''null'') \<and>
   fst (Evaluate sample_lib (Some ''null'') ''true'' []) = (True, None)"
  by code_simp




text \<open>
  C8. For every run in which the document is decoded, the environment built, the expression
  compiled without error, the program created and the evaluation finished without an
  execution error: when the result has kind Bool, \<^verbatim>\<open>Evaluate\<close> returns its boolean and no
  error; when it has any other kind, \<^verbatim>\<open>Evaluate\<close> returns false with the error
  \<^verbatim>\<open>output type is not boolean\<close>.
\<close>

theorem Evaluate_verdict_iff_bool:
  assumes "json_Unmarshal L d = Inr vm"
    and "cel_NewEnv L (envOptions L d extra vm) = Inr env"
    and "Env_Compile L env e = (ast, issues)"
    and "\<forall>i. issues = Some i \<longrightarrow> Errors i = []"
    and "Env_Program L env ast = Inr prg"
    and "Program_Eval L prg vm = Inr out"
  shows "(val_Type out = BoolType \<longrightarrow>
            (\<exists>b. out = types_Bool b \<and> fst (Evaluate L (Some d) e extra) = (b, None))) \<and>
         (val_Type out \<noteq> BoolType \<longrightarrow>
            fst (Evaluate L (Some d) e extra) =
              (False, Some (catcher_Error ''output type is not boolean'' None
                 [(''expression'', CtxString e)])))"
proof -
  have ok: "\<not> (issues \<noteq> None \<and> Issues_Err (the issues) \<noteq> None)"
    using assms(4) by (cases issues) (simp_all add: Issues_Err_def)
  show ?thesis
  proof (cases "val_Type out = BoolType")
    case True
    then obtain b where "out = types_Bool b" using val_Type_Bool by blast
    then show ?thesis using assms(1,2,3,5,6) ok by (auto simp: Evaluate_def)
  next
    case False
    then show ?thesis using assms(1,2,3,5,6) ok by (auto simp: Evaluate_def)
  qed
qed

text \<open>A boolean expression and an arithmetic expression over the sample document.\<close>

theorem Evaluate_verdict_iff_bool_witness:
  "fst (Evaluate sample_lib (Some sample_doc) ''true'' []) = (True, None) \<and>
   fst (Evaluate sample_lib (Some sample_doc) ''1 + 1'' []) =
     (False, Some (catcher_Error ''output type is not boolean'' None
        [(''expression'', CtxString ''1 + 1'')]))"
proof -
  let ?env = "envOptions sample_lib sample_doc [] sample_map"
  let ?t = "Lit (types_Bool True)"
  let ?s = "Call ''_+_'' [Lit (types_Int 1), Lit (types_Int 1)]"
  have h1: "json_Unmarshal sample_lib sample_doc = Inr sample_map"
    by (rule sample_Unmarshal)
  have h2: "cel_NewEnv sample_lib ?env = Inr ?env"
    by (simp add: sample_lib_def golib_sel)
  have h3: "Env_Compile sample_lib ?env ''true'' = (Some ?t, None)" by code_simp
  have h3': "Env_Compile sample_lib ?env ''1 + 1'' = (Some ?s, None)" by code_simp
  have h4: "\<forall>i. (None :: Issues option) = Some i \<longrightarrow> Errors i = []" by simp
  have h5: "Env_Program sample_lib ?env (Some ?t) = Inr (?env, ?t)"
    by (simp add: sample_lib_def golib_sel)
  have h5': "Env_Program sample_lib ?env (Some ?s) = Inr (?env, ?s)"
    by (simp add: sample_lib_def golib_sel)
  have h6: "Program_Eval sample_lib (?env, ?t) sample_map = Inr (types_Bool True)"
    by (simp add: sample_lib_def golib_sel)
  have h6': "Program_Eval sample_lib (?env, ?s) sample_map = Inr (types_Int 2)"
    by code_simp
  show ?thesis
    using Evaluate_verdict_iff_bool [OF h1 h2 h3 h4 h5 h6]
      Evaluate_verdict_iff_bool [OF h1 h2 h3' h4 h5' h6']
    by auto
qed

text \<open>
  C9. For every call of \<^verbatim>\<open>Evaluate\<close> that reaches evaluation, the bindings passed to the
  program are the decoded map itself, and for each of its entries the environment declares
  the key with the kind classified from the very value bound to it and with no other kind,
  and that kind is the kind of the value the evaluator sees.
\<close>

theorem declared_kind_is_runtime_kind:
  assumes "Call_Eval prg vm \<in> set (snd (Evaluate (golib R) data e extra))"
  shows "\<exists>d opts. data = Some d \<and> json_Unmarshal (golib R) d = Inr vm \<and>
           Call_NewEnv opts \<in> set (snd (Evaluate (golib R) data e extra)) \<and>
           (\<forall>(k, v) \<in> set vm.
               (k, valueToCelType no_proto v) \<in> set (variable_decls opts) \<and>
               (\<forall>t. (k, t) \<in> set (variable_decls opts) \<longrightarrow> t = valueToCelType no_proto v) \<and>
               kind_of (val_Type (NativeToValue v)) = kind_of (valueToCelType no_proto v))"
proof -
  obtain d env ast issues where d: "data = Some d"
    and u: "json_Unmarshal (golib R) d = Inr vm"
    and n: "cel_NewEnv (golib R) (envOptions (golib R) d extra vm) = Inr env"
    and c: "Env_Compile (golib R) env e = (ast, issues)"
    and ok: "\<not> (issues \<noteq> None \<and> Issues_Err (the issues) \<noteq> None)"
    and m: "Call_NewEnv (envOptions (golib R) d extra vm)
              \<in> set (snd (Evaluate (golib R) data e extra))"
    using reach_eval [OF assms] by blast
  let ?opts = "envOptions (golib R) d extra vm"
  have env: "env = ?opts" using n by (simp add: golib_sel)
  have cons: "add_idents [] (variable_decls ?opts) = []"
    using Compile_model_ok [of "read_expr R" ?opts e ast issues] c ok env
    by (simp add: golib_sel)
  have "(k, valueToCelType no_proto v) \<in> set (variable_decls ?opts) \<and>
        (\<forall>t. (k, t) \<in> set (variable_decls ?opts) \<longrightarrow> t = valueToCelType no_proto v) \<and>
        kind_of (val_Type (NativeToValue v)) = kind_of (valueToCelType no_proto v)"
    if kv: "(k, v) \<in> set vm" for k v
  proof -
    have mem: "(k, valueToCelType no_proto v) \<in> set (variable_decls ?opts)"
      using kv by (force simp: variable_decls_envOptions golib_sel)
    have uniq: "\<forall>t. (k, t) \<in> set (variable_decls ?opts) \<longrightarrow> t = valueToCelType no_proto v"
      using add_idents_unique [OF cons _ mem] by blast
    obtain j where "v = to_go j"
      using Unmarshal_map_values [of "read_json R" d vm k v] u kv by (auto simp: golib_sel)
    then have "kind_of (val_Type (NativeToValue v)) = kind_of (valueToCelType no_proto v)"
      by (simp add: kind_to_go)
    then show ?thesis using mem uniq by blast
  qed
  then show ?thesis using d u m by blast
qed

text \<open>The two keys of the sample document, a map and a string.\<close>

theorem declared_kind_is_runtime_kind_witness:
  "Call_Eval (envOptions (golib sample_readers) sample_doc [] sample_map, Lit (types_Bool True))
       sample_map
     \<in> set (snd (Evaluate (golib sample_readers) (Some sample_doc) ''true'' [])) \<and>
   (\<exists>opts. Call_NewEnv opts
              \<in> set (snd (Evaluate (golib sample_readers) (Some sample_doc) ''true'' [])) \<and>
      (''a'', MapType StringType DynType) \<in> set (variable_decls opts) \<and>
      (''a'', IntType) \<notin> set (variable_decls opts) \<and>
      (''x'', StringType) \<in> set (variable_decls opts) \<and>
      (''x'', IntType) \<notin> set (variable_decls opts)) \<and>
   kind_of (val_Type (NativeToValue (VMap [(''b'', VFloat64 1)]))) = KMapping \<and>
   kind_of (val_Type (NativeToValue (VString ''s''))) = KString"
proof -
  let ?run = "snd (Evaluate (golib sample_readers) (Some sample_doc) ''true'' [])"
  have h: "Call_Eval (envOptions (golib sample_readers) sample_doc [] sample_map,
                      Lit (types_Bool True)) sample_map \<in> set ?run"
    using sample_Unmarshal
    by (simp add: sample_lib_def Evaluate_def golib_sel Compile_model_def sample_readers_def
        sample_read_expr_def variable_decls_envOptions sample_map_def Issues_Err_def Let_def)
  obtain opts where o: "Call_NewEnv opts \<in> set ?run"
    and p: "\<forall>(k, v) \<in> set sample_map.
               (k, valueToCelType no_proto v) \<in> set (variable_decls opts) \<and>
               (\<forall>t. (k, t) \<in> set (variable_decls opts) \<longrightarrow> t = valueToCelType no_proto v) \<and>
               kind_of (val_Type (NativeToValue v)) = kind_of (valueToCelType no_proto v)"
    using declared_kind_is_runtime_kind [OF h] by blast
  have ka: "valueToCelType no_proto (VMap [(''b'', VFloat64 1)]) = MapType StringType DynType"
    by (simp add: valueToCelType_def time_Time_def structpb_Value_def)
  have kx: "valueToCelType no_proto (VString ''s'') = StringType"
    by (simp add: valueToCelType_def)
  have a: "(''a'', MapType StringType DynType) \<in> set (variable_decls opts) \<and>
           (''a'', IntType) \<notin> set (variable_decls opts) \<and>
           kind_of (val_Type (NativeToValue (VMap [(''b'', VFloat64 1)]))) = KMapping"
    using p ka by (auto simp: sample_map_def)
  have x: "(''x'', StringType) \<in> set (variable_decls opts) \<and>
           (''x'', IntType) \<notin> set (variable_decls opts) \<and>
           kind_of (val_Type (NativeToValue (VString ''s''))) = KString"
    using p kx by (auto simp: sample_map_def)
  show ?thesis using h o a x by blast
qed

text \<open>
  C10. For every input, whenever \<^verbatim>\<open>Evaluate\<close> returns an error, at whatever stage, the
  boolean it returns with it is false.
\<close>

theorem Evaluate_error_implies_false:
  assumes "snd (fst (Evaluate L data e extra)) \<noteq> None"
  shows "fst (fst (Evaluate L data e extra)) = False"
  using assms
  by (auto simp: Evaluate_def Let_def
      split: option.splits sum.splits prod.splits if_splits ref_val.splits)

theorem Evaluate_error_implies_false_witness:
  "snd (fst (Evaluate sample_lib None ''true'' [])) \<noteq> None \<and>
   fst (fst (Evaluate sample_lib None ''true'' [])) = False"
proof -
  have h: "snd (fst (Evaluate sample_lib None ''true'' [])) \<noteq> None"
    by (simp add: Evaluate_def)
  show ?thesis using h Evaluate_error_implies_false [OF h] by simp
qed

end
